theory Spec2Isabelle
  imports Main "HOL-Library.Multiset"
begin

section \<open>Values and documents\<close>

text \<open>
  The server (\<^verbatim>\<open>src/server.js\<close>) is a set of Express handlers over one Mongoose model,
  \<^verbatim>\<open>User\<close>. JSON request bodies are modelled by \<open>jsval\<close>; \<open>Undefined\<close> is what
  reading a missing property yields. Numbers stand for the numeric values a JSON body can
  carry and are only ever compared for equality.
\<close>

datatype jsval =
    Undefined
  | Null
  | Bool bool
  | Num int
  | Str string
  | Arr "jsval list"
  | Obj "(string \<times> jsval) list"

text \<open>
  \<^verbatim>\<open>a === b\<close> for two values that come from different places (one parsed from the
  request, one loaded from the store): primitives compare by value, objects and arrays by
  reference, and two references from different places are never the same.
\<close>

fun strict_eq :: "jsval \<Rightarrow> jsval \<Rightarrow> bool" where
  "strict_eq Undefined Undefined = True"
| "strict_eq Null Null = True"
| "strict_eq (Bool a) (Bool b) = (a = b)"
| "strict_eq (Num a) (Num b) = (a = b)"
| "strict_eq (Str a) (Str b) = (a = b)"
| "strict_eq _ _ = False"

text \<open>
  A synchronous computation either returns or throws; every handler body sits in a
  \<^verbatim>\<open>try\<close> block whose \<^verbatim>\<open>catch\<close> answers with status 500.
\<close>

datatype 'a outcome = Throw | Ret 'a

text \<open>
  \<^verbatim>\<open>v.name\<close>: a TypeError on \<^verbatim>\<open>undefined\<close> and \<^verbatim>\<open>null\<close>; the own property
  of an object (property names of an object are unique); \<^verbatim>\<open>undefined\<close> for the
  names used here on strings, numbers, booleans and arrays.
\<close>

fun member_of :: "jsval \<Rightarrow> string \<Rightarrow> jsval outcome" where
  "member_of Undefined n = Throw"
| "member_of Null n = Throw"
| "member_of (Obj ps) n = Ret (case map_of ps n of None \<Rightarrow> Undefined | Some v \<Rightarrow> v)"
| "member_of _ n = Ret Undefined"

text \<open>\<^verbatim>\<open>v?.name\<close>: \<^verbatim>\<open>undefined\<close> where \<^verbatim>\<open>v.name\<close> would throw.\<close>

definition opt_member :: "jsval \<Rightarrow> string \<Rightarrow> jsval" where
  "opt_member v n = (case member_of v n of Throw \<Rightarrow> Undefined | Ret w \<Rightarrow> w)"

text \<open>\<^verbatim>\<open>a || b\<close> on an optional string: \<^verbatim>\<open>undefined\<close> and the empty string are falsy.\<close>

definition or_default :: "string option \<Rightarrow> string \<Rightarrow> string" where
  "or_default a b = (case a of None \<Rightarrow> b | Some s \<Rightarrow> if s = [] then b else s)"

text \<open>
  An \<open>oid\<close> is an ObjectId, written as its 24 hexadecimal digits in lower case. Text
  that reaches the store as the \<^verbatim>\<open>_id\<close> of a list entry (the path parameter of a delete)
  is cast to an ObjectId first: 24 hexadecimal digits in either case are read, and anything
  else is a CastError. The id of a user comes from the claims of a verified token, where
  login put the user's \<^verbatim>\<open>_id\<close>.
\<close>

type_synonym oid = string

definition is_hex :: "char \<Rightarrow> bool" where
  "is_hex c = (c \<in> set ''0123456789abcdefABCDEF'')"

definition lower_hex :: "char \<Rightarrow> char" where
  "lower_hex c =
     (if c = CHR ''A'' then CHR ''a'' else if c = CHR ''B'' then CHR ''b''
      else if c = CHR ''C'' then CHR ''c'' else if c = CHR ''D'' then CHR ''d''
      else if c = CHR ''E'' then CHR ''e'' else if c = CHR ''F'' then CHR ''f'' else c)"

definition castObjectId :: "string \<Rightarrow> oid option" where
  "castObjectId s = (if length s = 24 \<and> list_all is_hex s then Some (map lower_hex s) else None)"

text \<open>
  The embedded lists of \<^verbatim>\<open>UserSchema\<close> (lines 72-101). The entries of
  \<^verbatim>\<open>savedData\<close> and \<^verbatim>\<open>newsHistory\<close> are sub-documents. The entry declared for
  \<^verbatim>\<open>appointmentHistory\<close> (lines 93-101) has a key \<^verbatim>\<open>type\<close>, which Mongoose reads as
  the declaration of the entry's type, here \<^verbatim>\<open>String\<close>, with the other keys as its
  options: that list is an array of strings.
\<close>

record saved =
  sd_id :: oid
  sd_title :: string
  sd_informationType :: string
  sd_content :: jsval
  sd_savedAt :: nat

record news =
  nw_id :: oid
  nw_title :: "string option"
  nw_source :: "string option"
  nw_date :: "string option"
  nw_url :: "string option"
  nw_addedAt :: nat

text \<open>
  A user document. A string field holds \<open>None\<close> when the document has no value for it;
  \<^verbatim>\<open>select('-password')\<close> is \<open>password := None\<close>.
\<close>

record user =
  uid :: oid
  fullName :: "string option"
  email :: "string option"
  password :: "string option"
  phone :: "string option"
  address :: "string option"
  gender :: "string option"
  dob :: "string option"
  profileImg :: "string option"
  bloodType :: "string option"
  height :: "string option"
  weight :: "string option"
  allergies :: "string option"
  conditions :: "string option"
  savedData :: "saved list"
  newsHistory :: "news list"
  appointmentHistory :: "string list"

text \<open>The collection, in the store's order.\<close>

type_synonym db = "user list"

text \<open>What \<^verbatim>\<open>GET /api/user-profile\<close> sends of a user document (lines 152-168).\<close>

record profile_view =
  pv_id :: oid
  pv_name :: "string option"
  pv_fullName :: "string option"
  pv_email :: "string option"
  pv_phone :: "string option"
  pv_address :: "string option"
  pv_gender :: "string option"
  pv_dob :: "string option"
  pv_profileImg :: "string option"
  pv_bloodType :: "string option"
  pv_height :: "string option"
  pv_weight :: "string option"
  pv_allergies :: "string option"
  pv_conditions :: "string option"

definition view_of :: "user \<Rightarrow> profile_view" where
  "view_of u =
     \<lparr>pv_id = uid u, pv_name = fullName u, pv_fullName = fullName u, pv_email = email u,
      pv_phone = phone u, pv_address = address u, pv_gender = gender u, pv_dob = dob u,
      pv_profileImg = profileImg u, pv_bloodType = bloodType u, pv_height = height u,
      pv_weight = weight u, pv_allergies = allergies u, pv_conditions = conditions u\<rparr>"

section \<open>Responses\<close>

datatype body =
    Message string
  | MessageWithError string
  | LoginOk string oid "string option" "string option"
  | Profile profile_view
  | Updated string user
  | SavedPages "saved list"
  | NewsItems "news list"
  | Appointments "string list"

text \<open>
  \<open>MessageWithError m\<close> is \<^verbatim>\<open>{ message: m, error: err.message }\<close>; the text of the
  caught error is not part of the model. A response is the status and the JSON body.
\<close>

type_synonym response = "nat \<times> body"

section \<open>What the handlers take from outside\<close>

text \<open>
  \<open>jwt_verify\<close> is \<^verbatim>\<open>jwt.verify(_, process.env.JWT_SECRET)\<close>: the decoded claims, or
  \<open>None\<close> when it throws. \<open>jwt_sign\<close> is \<^verbatim>\<open>jwt.sign({ id }, secret, { expiresIn: "1h" })\<close>
  at a given time. \<open>extname\<close> is \<^verbatim>\<open>path.extname\<close>.
\<close>

datatype claims = Claims (claim_id: oid)

record deps =
  jwt_verify :: "string \<Rightarrow> claims option"
  jwt_sign :: "oid \<Rightarrow> nat \<Rightarrow> string"
  extname :: "string \<Rightarrow> string"

text \<open>
  What one request sees of the world: \<open>now\<close> is \<^verbatim>\<open>Date.now()\<close>, \<open>fresh\<close> the
  identifier the store generates for a new document or list entry, and \<open>store_rejects\<close>
  says that the store calls awaited by this request reject (the store is unreachable, or
  its validators refuse the update), which lands in the handler's \<^verbatim>\<open>catch\<close>.
\<close>

record env =
  now :: nat
  fresh :: oid
  store_rejects :: bool

section \<open>The auth guard\<close>

text \<open>
  \<^verbatim>\<open>verifyToken\<close> (lines 36-48). The header is \<open>None\<close> when the request has no
  \<^verbatim>\<open>Authorization\<close> header. \<^verbatim>\<open>!token\<close> holds for \<^verbatim>\<open>undefined\<close> and for the
  empty string. The guard either answers itself or calls \<^verbatim>\<open>next()\<close> with
  \<^verbatim>\<open>req.user\<close> set. \<^verbatim>\<open>token.slice(7, token.length)\<close> drops the first seven
  characters.
\<close>

datatype guard = Denied response | Next claims

definition startsWith :: "string \<Rightarrow> string \<Rightarrow> bool" where
  "startsWith s p = (take (length p) s = p)"

definition cleanToken :: "string \<Rightarrow> string" where
  "cleanToken token = (if startsWith token ''Bearer '' then drop 7 token else token)"

definition verifyToken :: "deps \<Rightarrow> string option \<Rightarrow> guard" where
  "verifyToken d header =
     (case header of
        None \<Rightarrow> Denied (401, Message ''Access Denied: No Token'')
      | Some token \<Rightarrow>
          (if token = [] then Denied (401, Message ''Access Denied: No Token'')
           else
             (case jwt_verify d (cleanToken token) of
                None \<Rightarrow> Denied (400, Message ''Invalid Token'')
              | Some verified \<Rightarrow> Next verified)))"

section \<open>The store\<close>

text \<open>
  The Mongoose model is not part of the repository; its calls are modelled by what the
  handlers rely on. \<open>awaited\<close> is \<^verbatim>\<open>await\<close> on a store call: it throws when the store
  rejects.
\<close>

definition awaited :: "env \<Rightarrow> 'a \<Rightarrow> 'a outcome" where
  "awaited e x = (if store_rejects e then Throw else Ret x)"

definition findById :: "db \<Rightarrow> oid \<Rightarrow> user option" where
  "findById users i = find (\<lambda>u. uid u = i) users"

definition findOne :: "db \<Rightarrow> string option \<Rightarrow> user option" where
  "findOne users e = find (\<lambda>u. email u = e) users"

fun modify_first :: "('a \<Rightarrow> bool) \<Rightarrow> ('a \<Rightarrow> 'a) \<Rightarrow> 'a list \<Rightarrow> 'a list" where
  "modify_first P f [] = []"
| "modify_first P f (x # xs) = (if P x then f x # xs else x # modify_first P f xs)"

text \<open>
  \<^verbatim>\<open>User.findByIdAndUpdate(id, update, { new: true })\<close>: the first document with that
  id is changed; the call resolves to the changed document, or to \<^verbatim>\<open>null\<close> when no
  document has the id.
\<close>

definition findByIdAndUpdate :: "db \<Rightarrow> oid \<Rightarrow> (user \<Rightarrow> user) \<Rightarrow> user option \<times> db" where
  "findByIdAndUpdate users i f =
     (map_option f (findById users i), modify_first (\<lambda>u. uid u = i) f users)"

datatype field =
    FullName | Email | Phone | Address | Gender | Dob
  | BloodType | Height | Weight | Allergies | Conditions | ProfileImg

fun set_field :: "field \<Rightarrow> string option \<Rightarrow> user \<Rightarrow> user" where
  "set_field FullName v u = u\<lparr>fullName := v\<rparr>"
| "set_field Email v u = u\<lparr>email := v\<rparr>"
| "set_field Phone v u = u\<lparr>phone := v\<rparr>"
| "set_field Address v u = u\<lparr>address := v\<rparr>"
| "set_field Gender v u = u\<lparr>gender := v\<rparr>"
| "set_field Dob v u = u\<lparr>dob := v\<rparr>"
| "set_field BloodType v u = u\<lparr>bloodType := v\<rparr>"
| "set_field Height v u = u\<lparr>height := v\<rparr>"
| "set_field Weight v u = u\<lparr>weight := v\<rparr>"
| "set_field Allergies v u = u\<lparr>allergies := v\<rparr>"
| "set_field Conditions v u = u\<lparr>conditions := v\<rparr>"
| "set_field ProfileImg v u = u\<lparr>profileImg := v\<rparr>"

fun get_field :: "field \<Rightarrow> user \<Rightarrow> string option" where
  "get_field FullName u = fullName u"
| "get_field Email u = email u"
| "get_field Phone u = phone u"
| "get_field Address u = address u"
| "get_field Gender u = gender u"
| "get_field Dob u = dob u"
| "get_field BloodType u = bloodType u"
| "get_field Height u = height u"
| "get_field Weight u = weight u"
| "get_field Allergies u = allergies u"
| "get_field Conditions u = conditions u"
| "get_field ProfileImg u = profileImg u"

text \<open>The entry of the profile response for a field.\<close>

fun view_field :: "field \<Rightarrow> profile_view \<Rightarrow> string option" where
  "view_field FullName v = pv_fullName v"
| "view_field Email v = pv_email v"
| "view_field Phone v = pv_phone v"
| "view_field Address v = pv_address v"
| "view_field Gender v = pv_gender v"
| "view_field Dob v = pv_dob v"
| "view_field BloodType v = pv_bloodType v"
| "view_field Height v = pv_height v"
| "view_field Weight v = pv_weight v"
| "view_field Allergies v = pv_allergies v"
| "view_field Conditions v = pv_conditions v"
| "view_field ProfileImg v = pv_profileImg v"

text \<open>
  \<^verbatim>\<open>findByIdAndUpdate\<close> with a plain update object sets the fields the object names.
  Mongoose removes the keys that hold \<^verbatim>\<open>undefined\<close> from the update before it writes,
  so such a field keeps its stored value. The payload is the list of the object's keys with
  their values, \<open>None\<close> for \<^verbatim>\<open>undefined\<close>, in the order the object literal lists them;
  \<open>written\<close> is what is left of it to write. An update that the validators refuse
  (\<^verbatim>\<open>runValidators\<close>) is a store call that rejects.
\<close>

definition written :: "(field \<times> string option) list \<Rightarrow> (field \<times> string option) list" where
  "written payload = filter (\<lambda>(k, v). v \<noteq> None) payload"

definition apply_update :: "(field \<times> string option) list \<Rightarrow> user \<Rightarrow> user" where
  "apply_update payload u = fold (\<lambda>(k, v). set_field k v) (written payload) u"

text \<open>
  \<^verbatim>\<open>$push\<close> appends to the list; \<^verbatim>\<open>$pull\<close> with \<^verbatim>\<open>{ _id: id }\<close> removes every
  sub-document of the list whose \<^verbatim>\<open>_id\<close> is the given ObjectId.
\<close>

definition push_savedData :: "saved \<Rightarrow> user \<Rightarrow> user" where
  "push_savedData x u = u\<lparr>savedData := savedData u @ [x]\<rparr>"

definition pull_savedData :: "oid \<Rightarrow> user \<Rightarrow> user" where
  "pull_savedData i u = u\<lparr>savedData := filter (\<lambda>x. sd_id x \<noteq> i) (savedData u)\<rparr>"

definition push_newsHistory :: "news \<Rightarrow> user \<Rightarrow> user" where
  "push_newsHistory x u = u\<lparr>newsHistory := newsHistory u @ [x]\<rparr>"

definition pull_newsHistory :: "oid \<Rightarrow> user \<Rightarrow> user" where
  "pull_newsHistory i u = u\<lparr>newsHistory := filter (\<lambda>x. nw_id x \<noteq> i) (newsHistory u)\<rparr>"

text \<open>
  On the array of strings: the object a \<^verbatim>\<open>$push\<close> carries does not cast to a string,
  whatever its fields, which is a CastError; and \<^verbatim>\<open>$pull\<close> with \<^verbatim>\<open>{ _id: id }\<close>, whose
  id is not cast there, removes nothing, since no string is a document with that
  \<^verbatim>\<open>_id\<close>.
\<close>

definition cast_String :: "(string \<times> string option) list \<Rightarrow> string outcome" where
  "cast_String obj = Throw"

definition push_appointmentHistory :: "string \<Rightarrow> user \<Rightarrow> user" where
  "push_appointmentHistory x u = u\<lparr>appointmentHistory := appointmentHistory u @ [x]\<rparr>"

definition pull_appointmentHistory :: "string \<Rightarrow> user \<Rightarrow> user" where
  "pull_appointmentHistory param u = u"

section \<open>Image upload\<close>

text \<open>
  The multer storage (lines 20-28) names an uploaded file
  \<^verbatim>\<open>'profile-' + Date.now() + path.extname(file.originalname)\<close>. \<open>decimal\<close> is the
  string a non-negative integer turns into under \<^verbatim>\<open>+\<close>.
\<close>

definition digit :: "nat \<Rightarrow> char" where
  "digit n = ''0123456789'' ! n"

fun decimal :: "nat \<Rightarrow> string" where
  "decimal n = (if n < 10 then [digit n] else decimal (n div 10) @ [digit (n mod 10)])"

declare decimal.simps [simp del]

definition storage_filename :: "deps \<Rightarrow> env \<Rightarrow> string \<Rightarrow> string" where
  "storage_filename d e originalname = ''profile-'' @ decimal (now e) @ extname d originalname"

text \<open>
  \<^verbatim>\<open>upload.single('profileImage')\<close>: \<^verbatim>\<open>req.file\<close> is set when the request carries a
  file, whose \<^verbatim>\<open>filename\<close> is the one the storage chose.
\<close>

record upload =
  originalname :: string
  filename :: string

definition upload_single :: "deps \<Rightarrow> env \<Rightarrow> string option \<Rightarrow> upload option" where
  "upload_single d e sent =
     map_option (\<lambda>n. \<lparr>originalname = n, filename = storage_filename d e n\<rparr>) sent"

section \<open>Handlers\<close>

text \<open>
  Each handler takes what it reads from the request and the collection, and returns the
  response with the collection as it leaves it. \<open>i\<close> is \<^verbatim>\<open>req.user.id\<close>.
\<close>

text \<open>
  \<^verbatim>\<open>POST /api/register\<close> (lines 109-123). \<^verbatim>\<open>newUser.save()\<close> rejects when a
  \<^verbatim>\<open>required\<close> field is missing or empty, or when the generated id is taken.
\<close>

definition is_given :: "string option \<Rightarrow> bool" where
  "is_given v = (case v of None \<Rightarrow> False | Some s \<Rightarrow> s \<noteq> [])"

definition new_user :: "oid \<Rightarrow> string option \<Rightarrow> string option \<Rightarrow> string option \<Rightarrow> user" where
  "new_user i fn em pw =
     \<lparr>uid = i, fullName = fn, email = em, password = pw,
      phone = Some [], address = Some [], gender = Some [], dob = Some [],
      profileImg = Some [], bloodType = Some [], height = Some [], weight = Some [],
      allergies = Some [], conditions = Some [],
      savedData = [], newsHistory = [], appointmentHistory = []\<rparr>"

definition register ::
  "env \<Rightarrow> string option \<Rightarrow> string option \<Rightarrow> string option \<Rightarrow> db \<Rightarrow> response \<times> db" where
  "register e fn em pw users =
     (case awaited e (findOne users em) of
        Throw \<Rightarrow> ((500, MessageWithError ''Server Error''), users)
      | Ret existingUser \<Rightarrow>
          (case existingUser of
             Some _ \<Rightarrow> ((400, Message ''Email already in use.''), users)
           | None \<Rightarrow>
               (if is_given fn \<and> is_given em \<and> is_given pw \<and> findById users (fresh e) = None
                then ((201, Message ''Account created! Please log in.''),
                      users @ [new_user (fresh e) fn em pw])
                else ((500, MessageWithError ''Server Error''), users))))"

text \<open>\<^verbatim>\<open>POST /api/login\<close> (lines 126-144).\<close>

definition login ::
  "deps \<Rightarrow> env \<Rightarrow> string option \<Rightarrow> string option \<Rightarrow> db \<Rightarrow> response \<times> db" where
  "login d e em pw users =
     (case awaited e (findOne users em) of
        Throw \<Rightarrow> ((500, MessageWithError ''Server Error''), users)
      | Ret found \<Rightarrow>
          (case found of
             None \<Rightarrow> ((400, Message ''Invalid email or password.''), users)
           | Some u \<Rightarrow>
               (if password u \<noteq> pw
                then ((400, Message ''Invalid email or password.''), users)
                else ((200, LoginOk (jwt_sign d (uid u) (now e)) (uid u) (fullName u) (email u)),
                      users))))"

text \<open>\<^verbatim>\<open>GET /api/user-profile\<close> (lines 147-173).\<close>

definition get_user_profile :: "env \<Rightarrow> oid \<Rightarrow> db \<Rightarrow> response \<times> db" where
  "get_user_profile e i users =
     (case awaited e (findById users i) of
        Throw \<Rightarrow> ((500, Message ''Server Error fetching profile''), users)
      | Ret found \<Rightarrow>
          (case found of
             None \<Rightarrow> ((404, Message ''User not found''), users)
           | Some u \<Rightarrow> ((200, Profile (view_of u)), users)))"

text \<open>
  \<^verbatim>\<open>PUT /api/update-profile\<close> (lines 176-210). \<open>b\<close> is \<^verbatim>\<open>req.body\<close>: the form
  fields by name, \<open>None\<close> for a field the request does not carry. \<open>updateData\<close> is the
  object literal of lines 187-190 with the assignment of lines 192-194.
\<close>

definition profile_fields :: "field list" where
  "profile_fields =
     [FullName, Email, Phone, Address, Gender, Dob,
      BloodType, Height, Weight, Allergies, Conditions]"

definition updateData ::
  "(field \<Rightarrow> string option) \<Rightarrow> upload option \<Rightarrow> (field \<times> string option) list" where
  "updateData b file =
     map (\<lambda>k. (k, b k)) profile_fields @
     (case file of
        None \<Rightarrow> []
      | Some f \<Rightarrow> [(ProfileImg, Some (''/uploads/'' @ filename f))])"

definition update_profile ::
  "env \<Rightarrow> oid \<Rightarrow> (field \<Rightarrow> string option) \<Rightarrow> upload option \<Rightarrow> db \<Rightarrow> response \<times> db" where
  "update_profile e i b file users =
     (case awaited e (findByIdAndUpdate users i (apply_update (updateData b file))) of
        Throw \<Rightarrow> ((500, MessageWithError ''Error updating profile''), users)
      | Ret (updatedUser, users') \<Rightarrow>
          (case updatedUser of
             None \<Rightarrow> ((404, Message ''User not found''), users')
           | Some u \<Rightarrow>
               ((200, Updated ''Profile updated successfully!'' (u\<lparr>password := None\<rparr>)),
                users')))"

text \<open>
  \<^verbatim>\<open>POST /api/save-page\<close> (lines 213-235). \<^verbatim>\<open>pageData.url\<close> throws on a missing
  \<^verbatim>\<open>pageData\<close>, and \<^verbatim>\<open>user.savedData\<close> on a user that is not found; both land in
  the \<^verbatim>\<open>catch\<close>. The pushed entry gets its \<^verbatim>\<open>_id\<close> and \<^verbatim>\<open>savedAt\<close> from the
  schema's defaults.
\<close>

definition url_of :: "saved \<Rightarrow> jsval" where
  "url_of item = opt_member (sd_content item) ''url''"

definition isDuplicate :: "saved list \<Rightarrow> jsval \<Rightarrow> bool" where
  "isDuplicate items urlToCheck = list_ex (\<lambda>item. strict_eq (url_of item) urlToCheck) items"

definition new_saved :: "env \<Rightarrow> string option \<Rightarrow> jsval \<Rightarrow> string option \<Rightarrow> saved" where
  "new_saved e title pageData informationType =
     \<lparr>sd_id = fresh e,
      sd_title = or_default title ''Untitled'',
      sd_informationType = or_default informationType ''General'',
      sd_content = pageData,
      sd_savedAt = now e\<rparr>"

definition save_page ::
  "env \<Rightarrow> oid \<Rightarrow> string option \<Rightarrow> jsval \<Rightarrow> string option \<Rightarrow> db \<Rightarrow> response \<times> db" where
  "save_page e i title pageData informationType users =
     (case member_of pageData ''url'' of
        Throw \<Rightarrow> ((500, Message ''Error saving page''), users)
      | Ret urlToCheck \<Rightarrow>
          (case awaited e (findById users i) of
             Throw \<Rightarrow> ((500, Message ''Error saving page''), users)
           | Ret found \<Rightarrow>
               (case found of
                  None \<Rightarrow> ((500, Message ''Error saving page''), users)
                | Some u \<Rightarrow>
                    (if isDuplicate (savedData u) urlToCheck
                     then ((400, Message ''You have already saved this article.''), users)
                     else
                       (case awaited e
                               (findByIdAndUpdate users i
                                  (push_savedData
                                     (new_saved e title pageData informationType))) of
                          Throw \<Rightarrow> ((500, Message ''Error saving page''), users)
                        | Ret (_, users') \<Rightarrow>
                            ((200, Message ''Page saved successfully!''), users'))))))"

text \<open>
  The save handler reaches the store twice (lines 219 and 226), and between its two awaits
  other requests can be served. \<open>save_page_read\<close> is the handler up to the answer of
  \<^verbatim>\<open>findById\<close>; \<open>save_page_write\<close> is the rest: it looks for a duplicate in what was
  read and pushes onto the collection as it is by then.
\<close>

definition save_page_read ::
  "env \<Rightarrow> oid \<Rightarrow> jsval \<Rightarrow> db \<Rightarrow> response + (jsval \<times> user option)" where
  "save_page_read e i pageData users =
     (case member_of pageData ''url'' of
        Throw \<Rightarrow> Inl (500, Message ''Error saving page'')
      | Ret urlToCheck \<Rightarrow>
          (case awaited e (findById users i) of
             Throw \<Rightarrow> Inl (500, Message ''Error saving page'')
           | Ret found \<Rightarrow> Inr (urlToCheck, found)))"

definition save_page_write ::
  "env \<Rightarrow> oid \<Rightarrow> string option \<Rightarrow> jsval \<Rightarrow> string option \<Rightarrow> jsval \<times> user option \<Rightarrow> db
     \<Rightarrow> response \<times> db" where
  "save_page_write e i title pageData informationType seen users =
     (case snd seen of
        None \<Rightarrow> ((500, Message ''Error saving page''), users)
      | Some u \<Rightarrow>
          (if isDuplicate (savedData u) (fst seen)
           then ((400, Message ''You have already saved this article.''), users)
           else
             (case awaited e
                     (findByIdAndUpdate users i
                        (push_savedData (new_saved e title pageData informationType))) of
                Throw \<Rightarrow> ((500, Message ''Error saving page''), users)
              | Ret (_, users') \<Rightarrow> ((200, Message ''Page saved successfully!''), users'))))"

text \<open>
  \<^verbatim>\<open>GET /api/my-saved-pages\<close> (lines 238-247). \<^verbatim>\<open>Array.prototype.sort\<close> with a
  comparison function is stable: \<open>a\<close> stays before \<open>b\<close> unless the function is positive
  on them.
\<close>

fun insert_by :: "('a \<Rightarrow> 'a \<Rightarrow> int) \<Rightarrow> 'a \<Rightarrow> 'a list \<Rightarrow> 'a list" where
  "insert_by cmp x [] = [x]"
| "insert_by cmp x (y # ys) = (if cmp x y \<le> 0 then x # y # ys else y # insert_by cmp x ys)"

fun sort_by :: "('a \<Rightarrow> 'a \<Rightarrow> int) \<Rightarrow> 'a list \<Rightarrow> 'a list" where
  "sort_by cmp [] = []"
| "sort_by cmp (x # xs) = insert_by cmp x (sort_by cmp xs)"

definition by_savedAt_desc :: "saved \<Rightarrow> saved \<Rightarrow> int" where
  "by_savedAt_desc a b = int (sd_savedAt b) - int (sd_savedAt a)"

definition get_saved_pages :: "env \<Rightarrow> oid \<Rightarrow> db \<Rightarrow> response \<times> db" where
  "get_saved_pages e i users =
     (case awaited e (findById users i) of
        Throw \<Rightarrow> ((500, Message ''Error fetching data''), users)
      | Ret found \<Rightarrow>
          (case found of
             None \<Rightarrow> ((404, Message ''User not found''), users)
           | Some u \<Rightarrow> ((200, SavedPages (sort_by by_savedAt_desc (savedData u))), users)))"

text \<open>
  \<^verbatim>\<open>DELETE /api/my-saved-pages/:id\<close> (lines 250-257). \<open>param\<close> is
  \<^verbatim>\<open>req.params.id\<close>, as the client wrote it; the update casts it, and a CastError lands
  in the \<^verbatim>\<open>catch\<close>.
\<close>

definition delete_saved_page :: "env \<Rightarrow> oid \<Rightarrow> string \<Rightarrow> db \<Rightarrow> response \<times> db" where
  "delete_saved_page e i param users =
     (case castObjectId param of
        None \<Rightarrow> ((500, Message ''Server error deleting item''), users)
      | Some x \<Rightarrow>
          (case awaited e (findByIdAndUpdate users i (pull_savedData x)) of
             Throw \<Rightarrow> ((500, Message ''Server error deleting item''), users)
           | Ret (_, users') \<Rightarrow> ((200, Message ''Item deleted successfully''), users')))"

text \<open>
  \<^verbatim>\<open>POST /api/news\<close>, \<^verbatim>\<open>GET /api/news\<close>, \<^verbatim>\<open>DELETE /api/news/:id\<close>
  (lines 262-294). \<^verbatim>\<open>GET\<close> reads \<^verbatim>\<open>user.newsHistory\<close> without a check of
  \<^verbatim>\<open>user\<close>, so a user that is not found throws inside the \<^verbatim>\<open>try\<close>.
\<close>

definition new_news ::
  "env \<Rightarrow> string option \<Rightarrow> string option \<Rightarrow> string option \<Rightarrow> string option \<Rightarrow> news" where
  "new_news e title source date url =
     \<lparr>nw_id = fresh e, nw_title = title, nw_source = source, nw_date = date,
      nw_url = url, nw_addedAt = now e\<rparr>"

definition add_news ::
  "env \<Rightarrow> oid \<Rightarrow> string option \<Rightarrow> string option \<Rightarrow> string option \<Rightarrow> string option \<Rightarrow> db
     \<Rightarrow> response \<times> db" where
  "add_news e i title source date url users =
     (case awaited e
             (findByIdAndUpdate users i
                (push_newsHistory (new_news e title source date url))) of
        Throw \<Rightarrow> ((500, Message ''Error saving news''), users)
      | Ret (_, users') \<Rightarrow> ((200, Message ''News saved successfully!''), users'))"

definition get_news :: "env \<Rightarrow> oid \<Rightarrow> db \<Rightarrow> response \<times> db" where
  "get_news e i users =
     (case awaited e (findById users i) of
        Throw \<Rightarrow> ((500, Message ''Error fetching news''), users)
      | Ret found \<Rightarrow>
          (case found of
             None \<Rightarrow> ((500, Message ''Error fetching news''), users)
           | Some u \<Rightarrow> ((200, NewsItems (rev (newsHistory u))), users)))"

definition delete_news :: "env \<Rightarrow> oid \<Rightarrow> string \<Rightarrow> db \<Rightarrow> response \<times> db" where
  "delete_news e i param users =
     (case castObjectId param of
        None \<Rightarrow> ((500, Message ''Error deleting news''), users)
      | Some x \<Rightarrow>
          (case awaited e (findByIdAndUpdate users i (pull_newsHistory x)) of
             Throw \<Rightarrow> ((500, Message ''Error deleting news''), users)
           | Ret (_, users') \<Rightarrow> ((200, Message ''News deleted''), users')))"

text \<open>
  \<^verbatim>\<open>POST /api/appointments\<close>, \<^verbatim>\<open>GET /api/appointments\<close>,
  \<^verbatim>\<open>DELETE /api/appointments/:id\<close> (lines 299-331). The \<^verbatim>\<open>$push\<close> of line 303
  carries the object \<^verbatim>\<open>{ doctor, type, date, status }\<close>; the update casts it to the
  type of the list's entries before the store is asked, and the CastError lands in the
  \<^verbatim>\<open>catch\<close>.
\<close>

definition add_appointment ::
  "env \<Rightarrow> oid \<Rightarrow> string option \<Rightarrow> string option \<Rightarrow> string option \<Rightarrow> string option \<Rightarrow> db
     \<Rightarrow> response \<times> db" where
  "add_appointment e i doctor type date status users =
     (case cast_String
             [(''doctor'', doctor), (''type'', type), (''date'', date), (''status'', status)] of
        Throw \<Rightarrow> ((500, Message ''Error adding appointment''), users)
      | Ret x \<Rightarrow>
          (case awaited e (findByIdAndUpdate users i (push_appointmentHistory x)) of
             Throw \<Rightarrow> ((500, Message ''Error adding appointment''), users)
           | Ret (_, users') \<Rightarrow> ((200, Message ''Appointment added!''), users')))"

definition get_appointments :: "env \<Rightarrow> oid \<Rightarrow> db \<Rightarrow> response \<times> db" where
  "get_appointments e i users =
     (case awaited e (findById users i) of
        Throw \<Rightarrow> ((500, Message ''Error fetching appointments''), users)
      | Ret found \<Rightarrow>
          (case found of
             None \<Rightarrow> ((500, Message ''Error fetching appointments''), users)
           | Some u \<Rightarrow> ((200, Appointments (rev (appointmentHistory u))), users)))"

definition delete_appointment :: "env \<Rightarrow> oid \<Rightarrow> string \<Rightarrow> db \<Rightarrow> response \<times> db" where
  "delete_appointment e i param users =
     (case awaited e (findByIdAndUpdate users i (pull_appointmentHistory param)) of
        Throw \<Rightarrow> ((500, Message ''Error deleting appointment''), users)
      | Ret (_, users') \<Rightarrow> ((200, Message ''Appointment deleted''), users'))"

section \<open>Routes\<close>

text \<open>
  A request names its route and carries what the handler reads; the protected routes
  carry the \<^verbatim>\<open>Authorization\<close> header. \<open>protected\<close> is \<^verbatim>\<open>verifyToken\<close> in front of a
  handler. \<open>serve\<close> is one request served without another in between.
\<close>

datatype request =
    Register "string option" "string option" "string option"
  | Login "string option" "string option"
  | GetUserProfile "string option"
  | UpdateProfile "string option" "field \<Rightarrow> string option" "string option"
  | SavePage "string option" "string option" jsval "string option"
  | GetSavedPages "string option"
  | DeleteSavedPage "string option" string
  | AddNews "string option" "string option" "string option" "string option" "string option"
  | GetNews "string option"
  | DeleteNews "string option" string
  | AddAppointment "string option" "string option" "string option" "string option" "string option"
  | GetAppointments "string option"
  | DeleteAppointment "string option" string

definition protected ::
  "deps \<Rightarrow> string option \<Rightarrow> (oid \<Rightarrow> db \<Rightarrow> response \<times> db) \<Rightarrow> db \<Rightarrow> response \<times> db" where
  "protected d header handler users =
     (case verifyToken d header of
        Denied r \<Rightarrow> (r, users)
      | Next verified \<Rightarrow> handler (claim_id verified) users)"

fun serve :: "deps \<Rightarrow> env \<Rightarrow> request \<Rightarrow> db \<Rightarrow> response \<times> db" where
  "serve d e (Register fn em pw) users = register e fn em pw users"
| "serve d e (Login em pw) users = login d e em pw users"
| "serve d e (GetUserProfile h) users = protected d h (get_user_profile e) users"
| "serve d e (UpdateProfile h b sent) users =
     protected d h (\<lambda>i. update_profile e i b (upload_single d e sent)) users"
| "serve d e (SavePage h title pageData informationType) users =
     protected d h (\<lambda>i. save_page e i title pageData informationType) users"
| "serve d e (GetSavedPages h) users = protected d h (get_saved_pages e) users"
| "serve d e (DeleteSavedPage h param) users =
     protected d h (\<lambda>i. delete_saved_page e i param) users"
| "serve d e (AddNews h title source date url) users =
     protected d h (\<lambda>i. add_news e i title source date url) users"
| "serve d e (GetNews h) users = protected d h (get_news e) users"
| "serve d e (DeleteNews h param) users = protected d h (\<lambda>i. delete_news e i param) users"
| "serve d e (AddAppointment h doctor type date status) users =
     protected d h (\<lambda>i. add_appointment e i doctor type date status) users"
| "serve d e (GetAppointments h) users = protected d h (get_appointments e) users"
| "serve d e (DeleteAppointment h param) users =
     protected d h (\<lambda>i. delete_appointment e i param) users"

text \<open>
  Requests served one after another, none before the one in front of it has been answered:
  \<open>run\<close> is the collection they leave, \<open>replies\<close> the answers they get.
\<close>

fun run :: "deps \<Rightarrow> (env \<times> request) list \<Rightarrow> db \<Rightarrow> db" where
  "run d [] users = users"
| "run d ((e, r) # rest) users = run d rest (snd (serve d e r users))"

fun replies :: "deps \<Rightarrow> (env \<times> request) list \<Rightarrow> db \<Rightarrow> response list" where
  "replies d [] users = []"
| "replies d ((e, r) # rest) users =
     fst (serve d e r users) # replies d rest (snd (serve d e r users))"

text \<open>
  The server does not serve requests one after another: while a handler awaits the store,
  other requests are served. A handler with one store call is not affected, since the call
  is one step of the store and the rest of the handler reads no more of the collection. The
  save handler reads and then writes; between its two steps anything can be served.
  (Registration reads and writes too; there the unique index on the email decides.) An
  event is a request served without another in between, the first step of a save, numbered
  to be named later, or the second step of the save of that number. \<open>play\<close> is the
  collection a sequence of events leaves, with the saves still between their steps.
\<close>

datatype event =
    Serve env request
  | SaveRead nat env "string option" "string option" jsval "string option"
  | SaveWrite nat

type_synonym waiting = "env \<times> oid \<times> string option \<times> jsval \<times> string option \<times> (jsval \<times> user option)"

fun play :: "deps \<Rightarrow> event list \<Rightarrow> db \<times> (nat \<times> waiting) list \<Rightarrow> db \<times> (nat \<times> waiting) list" where
  "play d [] s = s"
| "play d (Serve e r # evs) (users, ws) = play d evs (snd (serve d e r users), ws)"
| "play d (SaveRead n e h title pageData informationType # evs) (users, ws) =
     (case verifyToken d h of
        Denied r \<Rightarrow> play d evs (users, ws)
      | Next verified \<Rightarrow>
          (case save_page_read e (claim_id verified) pageData users of
             Inl r \<Rightarrow> play d evs (users, ws)
           | Inr seen \<Rightarrow>
               play d evs
                 (users,
                  (n, (e, claim_id verified, title, pageData, informationType, seen)) # ws)))"
| "play d (SaveWrite n # evs) (users, ws) =
     (case map_of ws n of
        None \<Rightarrow> play d evs (users, ws)
      | Some (e, i, title, pageData, informationType, seen) \<Rightarrow>
          play d evs
            (snd (save_page_write e i title pageData informationType seen users),
             filter (\<lambda>(m, w). m \<noteq> n) ws))"

section \<open>Properties of the stored lists\<close>




section \<open>Sample data\<close>

text \<open>
  \<open>oid_of\<close> names an ObjectId by its last two digits. A signing scheme that accepts the
  single token \<open>good\<close>, for one user; the environment of a request served at a given time
  by a store that answers; and that user as registration creates it.
\<close>

definition oid_of :: "string \<Rightarrow> oid" where
  "oid_of s = ''0000000000000000000000'' @ s"

definition sample_deps :: deps where
  "sample_deps =
     \<lparr>jwt_verify =
        (\<lambda>t. if t = ''good'' then Some (Claims (oid_of ''a1'')) else None),
      jwt_sign = (\<lambda>i t. ''good''),
      extname = (\<lambda>n. ''.png'')\<rparr>"

definition env_at :: "nat \<Rightarrow> oid \<Rightarrow> env" where
  "env_at t i = \<lparr>now = t, fresh = i, store_rejects = False\<rparr>"

definition alice :: user where
  "alice = new_user (oid_of ''a1'') (Some ''Alice'') (Some ''a@x.org'') (Some ''pw'')"

text \<open>
  A saved page with a string url, and a body that carries two fields.
\<close>

definition sample_page :: "nat \<Rightarrow> oid \<Rightarrow> string \<Rightarrow> saved" where
  "sample_page t i u = new_saved (env_at t i) (Some ''Page'') (Obj [(''url'', Str u)]) None"

definition sample_body :: "field \<Rightarrow> string option" where
  "sample_body k = (if k = Phone then Some ''555'' else if k = BloodType then Some ''O+'' else None)"





text \<open>Two appointments added and the list read, after a registration.\<close>

definition appointment_trace :: "(env \<times> request) list" where
  "appointment_trace =
     [(env_at 1 (oid_of ''a1''),
         Register (Some ''Alice'') (Some ''a@x.org'') (Some ''pw'')),
      (env_at 2 (oid_of ''b1''),
         AddAppointment (Some ''Bearer good'') (Some ''Dr A'') (Some ''General'')
           (Some ''2025-01-10'') None),
      (env_at 3 (oid_of ''b2''),
         AddAppointment (Some ''Bearer good'') (Some ''Dr B'') (Some ''Cardiology'')
           (Some ''2025-02-10'') (Some ''Upcoming'')),
      (env_at 4 (oid_of ''b3''), GetAppointments (Some ''Bearer good''))]"

section \<open>Lemmas about the store and the lists\<close>


lemma strict_eq_Undefined [simp]: "strict_eq v Undefined = (v = Undefined)"
  by (cases v) auto

lemma findById_modify_first:
  assumes "\<And>u. uid (f u) = uid u"
  shows "findById (modify_first (\<lambda>u. uid u = i) f users) j =
           (if j = i then map_option f (findById users i) else findById users j)"
  using assms by (induction users) (auto simp: findById_def)



lemma get_set_field:
  "get_field k (set_field k' v u) = (if k' = k then v else get_field k u)"
  by (cases k; cases k') auto

lemma uid_set_field [simp]: "uid (set_field k v u) = uid u"
  by (cases k) auto

lemma savedData_set_field [simp]: "savedData (set_field k v u) = savedData u"
  by (cases k) auto

lemma uid_fold_set_field [simp]: "uid (fold (\<lambda>(k, v). set_field k v) p u) = uid u"
  by (induction p arbitrary: u) auto

lemma savedData_fold_set_field [simp]:
  "savedData (fold (\<lambda>(k, v). set_field k v) p u) = savedData u"
  by (induction p arbitrary: u) auto

lemma fold_set_field_untouched:
  "k \<notin> fst ` set p \<Longrightarrow> get_field k (fold (\<lambda>(k, v). set_field k v) p u) = get_field k u"
  by (induction p arbitrary: u) (auto simp: get_set_field)

lemma fold_set_field_written:
  "distinct (map fst p) \<Longrightarrow> (k, v) \<in> set p \<Longrightarrow>
   get_field k (fold (\<lambda>(k, v). set_field k v) p u) = v"
proof (induction p arbitrary: u)
  case Nil then show ?case by simp
next
  case (Cons a p)
  obtain k' v' where a: "a = (k', v')" by (cases a)
  show ?case
  proof (cases "(k, v) = a")
    case True
    with Cons.prems a have "k \<notin> fst ` set p" by auto
    with True a show ?thesis by (simp add: fold_set_field_untouched get_set_field)
  next
    case False
    with Cons a show ?thesis by auto
  qed
qed

lemma uid_apply_update [simp]: "uid (apply_update p u) = uid u"
  by (simp add: apply_update_def)

lemma savedData_apply_update [simp]: "savedData (apply_update p u) = savedData u"
  by (simp add: apply_update_def)

lemma mset_insert_by: "mset (insert_by cmp x xs) = add_mset x (mset xs)"
  by (induction xs) auto

lemma mset_sort_by: "mset (sort_by cmp xs) = mset xs"
  by (induction xs) (auto simp: mset_insert_by)

lemma set_insert_by: "set (insert_by cmp x xs) = insert x (set xs)"
  by (induction xs) auto

lemma sorted_insert_by_savedAt:
  "sorted_wrt (\<lambda>a b. sd_savedAt b \<le> sd_savedAt a) xs \<Longrightarrow>
   sorted_wrt (\<lambda>a b. sd_savedAt b \<le> sd_savedAt a) (insert_by by_savedAt_desc x xs)"
  by (induction xs) (auto simp: set_insert_by by_savedAt_desc_def)

lemma sorted_sort_by_savedAt:
  "sorted_wrt (\<lambda>a b. sd_savedAt b \<le> sd_savedAt a) (sort_by by_savedAt_desc xs)"
  by (induction xs) (auto simp: sorted_insert_by_savedAt)

lemma later_first:
  assumes s: "sorted_wrt (\<lambda>a b. sd_savedAt b \<le> sd_savedAt a) pages"
    and a: "a \<in> set pages" and b: "b \<in> set pages" and lt: "sd_savedAt a < sd_savedAt b"
  shows "\<exists>xs ys zs. pages = xs @ b # ys @ a # zs"
proof -
  from a obtain xs rest where p: "pages = xs @ a # rest" by (auto simp: in_set_conv_decomp)
  have "b \<notin> set rest" using s lt unfolding p by (auto simp: sorted_wrt_append)
  moreover have "b \<noteq> a" using lt by auto
  ultimately have "b \<in> set xs" using b unfolding p by auto
  then obtain xs1 xs2 where "xs = xs1 @ b # xs2" by (auto simp: in_set_conv_decomp)
  then have "pages = xs1 @ b # xs2 @ a # rest" using p by simp
  then show ?thesis by blast
qed

lemma isDuplicate_append [simp]:
  "isDuplicate (xs @ ys) v = (isDuplicate xs v \<or> isDuplicate ys v)"
  by (simp add: isDuplicate_def list_ex_iff) blast






lemma uid_push_pull [simp]:
  "uid (push_savedData s u) = uid u" "uid (pull_savedData p u) = uid u"
  "uid (push_newsHistory n u) = uid u" "uid (pull_newsHistory p u) = uid u"
  "uid (push_appointmentHistory a u) = uid u" "uid (pull_appointmentHistory p u) = uid u"
  by (simp_all add: push_savedData_def pull_savedData_def push_newsHistory_def
      pull_newsHistory_def push_appointmentHistory_def pull_appointmentHistory_def)



lemma add_news_found:
  "\<not> store_rejects e \<Longrightarrow> findById users i = Some u \<Longrightarrow>
   findById (snd (add_news e i a b c s users)) i
     = Some (push_newsHistory (new_news e a b c s) u)"
  by (simp add: add_news_def awaited_def findByIdAndUpdate_def findById_modify_first)

text \<open>The save handler is its second step straight after its first.\<close>

lemma save_page_steps:
  "save_page e i title pageData informationType users =
     (case save_page_read e i pageData users of
        Inl r \<Rightarrow> (r, users)
      | Inr seen \<Rightarrow> save_page_write e i title pageData informationType seen users)"
  by (simp add: save_page_def save_page_read_def save_page_write_def
      split: outcome.splits option.splits)

text \<open>Requests served one after another are among the sequences of events.\<close>

lemma play_Serve:
  "play d (map (\<lambda>(e, r). Serve e r) trace) (users, ws) = (run d trace users, ws)"
proof (induction trace arbitrary: users)
  case Nil then show ?case by simp
next
  case (Cons a trace)
  obtain e r where a: "a = (e, r)" by (cases a)
  from Cons show ?case by (simp add: a)
qed

section \<open>The auth guard, checked\<close>

text \<open>
  Claim C6 as stated: the guard answers 401 exactly when the \<^verbatim>\<open>Authorization\<close> header
  is absent. It fails at a header that is present and empty: \<^verbatim>\<open>!token\<close> holds for the
  empty string, so that request gets 401 as well.
\<close>

theorem verifyToken_empty_header_counterexample:
  "\<not> ((verifyToken sample_deps (Some '''') = Denied (401, Message ''Access Denied: No Token''))
       = (Some '''' = (None :: string option)))"
  by (simp add: verifyToken_def)

text \<open>
  Claim C6, amended: the guard answers 401 (Unauthenticated) exactly when the
  \<^verbatim>\<open>Authorization\<close> header is absent or empty. For any other header it verifies the
  header without an optional leading \<^verbatim>\<open>Bearer \<close>; it answers 400 (InvalidToken) exactly
  when verification fails, and continues with the decoded identity exactly when
  verification returns it.
\<close>

theorem verifyToken_cases:
  "(verifyToken d header = Denied (401, Message ''Access Denied: No Token'')
      \<longleftrightarrow> header = None \<or> header = Some [])
   \<and> (\<forall>token. header = Some token \<and> token \<noteq> [] \<longrightarrow>
         (verifyToken d header = Denied (400, Message ''Invalid Token'')
            \<longleftrightarrow> jwt_verify d (cleanToken token) = None)
       \<and> (\<forall>verified. jwt_verify d (cleanToken token) = Some verified
            \<longleftrightarrow> verifyToken d header = Next verified))
   \<and> (\<forall>t. cleanToken (''Bearer '' @ t) = t)
   \<and> (\<forall>t. \<not> startsWith t ''Bearer '' \<longrightarrow> cleanToken t = t)"
  by (auto simp: verifyToken_def cleanToken_def startsWith_def split: option.splits)

theorem verifyToken_cases_witness:
  "verifyToken sample_deps (Some ''Bearer good'') = Next (Claims (oid_of ''a1''))
   \<and> verifyToken sample_deps (Some ''bad'') = Denied (400, Message ''Invalid Token'')"
  using verifyToken_cases [of sample_deps "Some ''Bearer good''"]
    verifyToken_cases [of sample_deps "Some ''bad''"]
  by (simp add: verifyToken_def sample_deps_def cleanToken_def startsWith_def)

section \<open>Login\<close>

text \<open>
  Claim C7: a login whose email matches no user and a login whose email matches a user
  with another password both get 400 (InvalidCredentials) with the same message, so the
  two responses are the same; neither changes the collection.
\<close>

theorem login_failures_identical:
  assumes "\<not> store_rejects e1" and "\<not> store_rejects e2"
    and "findOne users em1 = None"
    and "findOne users em2 = Some u" and "password u \<noteq> pw2"
  shows "login d e1 em1 pw1 users = ((400, Message ''Invalid email or password.''), users)
       \<and> login d e2 em2 pw2 users = ((400, Message ''Invalid email or password.''), users)
       \<and> fst (login d e1 em1 pw1 users) = fst (login d e2 em2 pw2 users)"
  using assms by (simp add: login_def awaited_def)

theorem login_failures_identical_witness:
  "login sample_deps (env_at 5 (oid_of ''b1'')) (Some ''nobody@x.org'') (Some ''pw'') [alice]
     = ((400, Message ''Invalid email or password.''), [alice])
   \<and> login sample_deps (env_at 6 (oid_of ''b2'')) (Some ''a@x.org'') (Some ''guess'') [alice]
     = ((400, Message ''Invalid email or password.''), [alice])"
  using login_failures_identical [of "env_at 5 (oid_of ''b1'')" "env_at 6 (oid_of ''b2'')" "[alice]"
      "Some ''nobody@x.org''" "Some ''a@x.org''" alice "Some ''guess''" sample_deps "Some ''pw''"]
  by (simp add: env_at_def oid_of_def alice_def new_user_def findOne_def)

section \<open>Listing news and appointments\<close>

text \<open>
  Claim C9: when the authenticated id resolves to no user document,
  \<^verbatim>\<open>GET /api/news\<close> and \<^verbatim>\<open>GET /api/appointments\<close> answer 500 (ServerError), because
  the handler reads a list of the missing user inside its \<^verbatim>\<open>try\<close>; whereas
  \<^verbatim>\<open>GET /api/user-profile\<close> and \<^verbatim>\<open>GET /api/my-saved-pages\<close> answer 404 (NotFound)
  for the same lookup.
\<close>

theorem missing_user_status:
  assumes "findById users i = None"
  shows "get_news e i users = ((500, Message ''Error fetching news''), users)
       \<and> get_appointments e i users = ((500, Message ''Error fetching appointments''), users)
       \<and> (\<not> store_rejects e \<longrightarrow>
            get_user_profile e i users = ((404, Message ''User not found''), users)
          \<and> get_saved_pages e i users = ((404, Message ''User not found''), users))"
  using assms
  by (simp add: get_news_def get_appointments_def get_user_profile_def get_saved_pages_def
      awaited_def)

theorem missing_user_status_witness:
  "get_news (env_at 5 (oid_of ''b1'')) (oid_of ''a2'') [alice] = ((500, Message ''Error fetching news''), [alice])
   \<and> get_saved_pages (env_at 5 (oid_of ''b1'')) (oid_of ''a2'') [alice] = ((404, Message ''User not found''), [alice])"
  using missing_user_status [of "[alice]" "oid_of ''a2''" "env_at 5 (oid_of ''b1'')"]
  by (simp add: env_at_def oid_of_def alice_def new_user_def findById_def)

text \<open>
  News are listed last-added first: after adding A and then B the listing has B first
  and A second, in front of the entries stored before.
\<close>

lemma news_reverse_storage_order:
  assumes "\<not> store_rejects e" and "findById users i = Some u"
  shows "get_news e i users = ((200, NewsItems (rev (newsHistory u))), users)"
    and "\<not> store_rejects e1 \<Longrightarrow> \<not> store_rejects e2 \<Longrightarrow>
         fst (get_news e i
               (snd (add_news e2 i nB sB dB uB (snd (add_news e1 i nA sA dA uA users)))))
           = (200, NewsItems (new_news e2 nB sB dB uB # new_news e1 nA sA dA uA
                # rev (newsHistory u)))"
proof -
  show "get_news e i users = ((200, NewsItems (rev (newsHistory u))), users)"
    using assms by (simp add: get_news_def awaited_def)
next
  assume ok: "\<not> store_rejects e1" "\<not> store_rejects e2"
  have "findById (snd (add_news e2 i nB sB dB uB (snd (add_news e1 i nA sA dA uA users)))) i
       = Some (push_newsHistory (new_news e2 nB sB dB uB)
           (push_newsHistory (new_news e1 nA sA dA uA) u))"
    using ok assms(2) by (simp add: add_news_found)
  then show "fst (get_news e i
               (snd (add_news e2 i nB sB dB uB (snd (add_news e1 i nA sA dA uA users)))))
           = (200, NewsItems (new_news e2 nB sB dB uB # new_news e1 nA sA dA uA
                # rev (newsHistory u)))"
    using assms(1) by (simp add: get_news_def awaited_def push_newsHistory_def)
qed

lemma get_appointments_reverse:
  "\<not> store_rejects e \<Longrightarrow> findById users i = Some u \<Longrightarrow>
   get_appointments e i users = ((200, Appointments (rev (appointmentHistory u))), users)"
  by (simp add: get_appointments_def awaited_def)

text \<open>
  Claim C4 says that adding appointment A, then B, and listing the appointments returns
  [B, A]. On the code no appointment is ever added: the schema makes the list an array of
  strings, the object the handler pushes does not cast to a string, and every
  \<^verbatim>\<open>POST /api/appointments\<close> is answered with 500 and stores nothing. After a
  registration and two such requests the listing is empty.
\<close>

theorem appointments_never_added:
  "add_appointment e i doctor type date status users
      = ((500, Message ''Error adding appointment''), users)
   \<and> replies sample_deps appointment_trace []
      = [(201, Message ''Account created! Please log in.''),
         (500, Message ''Error adding appointment''),
         (500, Message ''Error adding appointment''),
         (200, Appointments [])]"
proof -
  have "add_appointment e i doctor type date status users
      = ((500, Message ''Error adding appointment''), users)"
    by (simp add: add_appointment_def cast_String_def)
  moreover have "replies sample_deps appointment_trace []
      = [(201, Message ''Account created! Please log in.''),
         (500, Message ''Error adding appointment''),
         (500, Message ''Error adding appointment''),
         (200, Appointments [])]"
    by (simp add: appointment_trace_def sample_deps_def env_at_def oid_of_def register_def awaited_def
        findOne_def is_given_def findById_def new_user_def protected_def verifyToken_def
        cleanToken_def startsWith_def add_appointment_def cast_String_def
        get_appointments_def)
  ultimately show ?thesis by simp
qed

section \<open>Deleting from a list\<close>









section \<open>Saved pages\<close>

lemma save_page_saved:
  assumes "fst (save_page e i t p k users) = (200, Message ''Page saved successfully!'')"
  shows "\<exists>u. findById users i = Some u \<and> \<not> store_rejects e
           \<and> \<not> isDuplicate (savedData u) (opt_member p ''url'')
           \<and> findById (snd (save_page e i t p k users)) i
                 = Some (push_savedData (new_saved e t p k) u)"
proof -
  from assms obtain url where m: "member_of p ''url'' = Ret url"
    by (cases "member_of p ''url''") (auto simp: save_page_def)
  from assms m have ok: "\<not> store_rejects e"
    by (auto simp: save_page_def awaited_def split: if_splits)
  from assms m ok obtain u where u: "findById users i = Some u"
    by (cases "findById users i") (auto simp: save_page_def awaited_def)
  from assms m ok u have nd: "\<not> isDuplicate (savedData u) url"
    by (auto simp: save_page_def awaited_def split: if_splits)
  have "findById (snd (save_page e i t p k users)) i
          = Some (push_savedData (new_saved e t p k) u)"
    using m ok u nd
    by (simp add: save_page_def awaited_def findByIdAndUpdate_def findById_modify_first)
  with m ok u nd show ?thesis by (simp add: opt_member_def)
qed

lemma get_saved_pages_sorted:
  assumes "\<not> store_rejects e" and "findById users i = Some u"
  shows "\<exists>pages. get_saved_pages e i users = ((200, SavedPages pages), users)
      \<and> sorted_wrt (\<lambda>a b. sd_savedAt b \<le> sd_savedAt a) pages
      \<and> mset pages = mset (savedData u)
      \<and> (\<forall>a \<in> set (savedData u). \<forall>b \<in> set (savedData u). sd_savedAt a < sd_savedAt b
            \<longrightarrow> (\<exists>xs ys zs. pages = xs @ b # ys @ a # zs))"
proof -
  let ?pages = "sort_by by_savedAt_desc (savedData u)"
  have r: "get_saved_pages e i users = ((200, SavedPages ?pages), users)"
    using assms by (simp add: get_saved_pages_def awaited_def)
  have s: "sorted_wrt (\<lambda>a b. sd_savedAt b \<le> sd_savedAt a) ?pages"
    by (rule sorted_sort_by_savedAt)
  have m: "mset ?pages = mset (savedData u)" by (rule mset_sort_by)
  then have st: "set ?pages = set (savedData u)" by (metis set_mset_mset)
  have "\<exists>xs ys zs. ?pages = xs @ b # ys @ a # zs"
    if "a \<in> set (savedData u)" "b \<in> set (savedData u)" "sd_savedAt a < sd_savedAt b" for a b
    using later_first [OF s, of a b] that st by simp
  with r s m show ?thesis by blast
qed

lemma later_save_first:
  assumes "\<not> store_rejects e"
    and s1: "fst (save_page e1 i t1 p1 k1 users) = (200, Message ''Page saved successfully!'')"
    and s2: "fst (save_page e2 i t2 p2 k2 (snd (save_page e1 i t1 p1 k1 users)))
               = (200, Message ''Page saved successfully!'')"
    and lt: "now e1 < now e2"
  shows "\<exists>xs ys zs. fst (get_saved_pages e i
                (snd (save_page e2 i t2 p2 k2 (snd (save_page e1 i t1 p1 k1 users)))))
           = (200, SavedPages (xs @ new_saved e2 t2 p2 k2 # ys @ new_saved e1 t1 p1 k1 # zs))"
proof -
  from save_page_saved [OF s1] obtain u where
    u: "findById (snd (save_page e1 i t1 p1 k1 users)) i
          = Some (push_savedData (new_saved e1 t1 p1 k1) u)" by blast
  from save_page_saved [OF s2] u have
    v: "findById (snd (save_page e2 i t2 p2 k2 (snd (save_page e1 i t1 p1 k1 users)))) i
          = Some (push_savedData (new_saved e2 t2 p2 k2)
                   (push_savedData (new_saved e1 t1 p1 k1) u))" by auto
  let ?xs = "savedData u @ [new_saved e1 t1 p1 k1, new_saved e2 t2 p2 k2]"
  have sd: "savedData (push_savedData (new_saved e2 t2 p2 k2)
                   (push_savedData (new_saved e1 t1 p1 k1) u)) = ?xs"
    by (simp add: push_savedData_def)
  have st: "set (sort_by by_savedAt_desc ?xs) = set ?xs"
    by (metis mset_sort_by set_mset_mset)
  have "\<exists>xs ys zs. sort_by by_savedAt_desc ?xs
           = xs @ new_saved e2 t2 p2 k2 # ys @ new_saved e1 t1 p1 k1 # zs"
    by (rule later_first [OF sorted_sort_by_savedAt])
       (use lt st in \<open>auto simp: new_saved_def\<close>)
  then show ?thesis using v sd assms(1)
    by (simp add: get_saved_pages_def awaited_def)
qed

text \<open>
  Claim C3: \<^verbatim>\<open>GET /api/my-saved-pages\<close> returns the user's saved pages, all of them,
  in descending order of \<^verbatim>\<open>savedAt\<close>: an entry saved later stands before an entry
  saved earlier. In particular, after two successful saves at times T1 < T2 the entry of T2
  is returned before the entry of T1.
\<close>

theorem saved_pages_sorted_desc:
  assumes "\<not> store_rejects e"
  shows "(findById users i = Some u \<longrightarrow>
           (\<exists>pages. get_saved_pages e i users = ((200, SavedPages pages), users)
              \<and> sorted_wrt (\<lambda>a b. sd_savedAt b \<le> sd_savedAt a) pages
              \<and> mset pages = mset (savedData u)
              \<and> (\<forall>a \<in> set (savedData u). \<forall>b \<in> set (savedData u).
                    sd_savedAt a < sd_savedAt b
                    \<longrightarrow> (\<exists>xs ys zs. pages = xs @ b # ys @ a # zs))))
       \<and> (fst (save_page e1 i t1 p1 k1 users) = (200, Message ''Page saved successfully!'')
            \<and> fst (save_page e2 i t2 p2 k2 (snd (save_page e1 i t1 p1 k1 users)))
                 = (200, Message ''Page saved successfully!'')
            \<and> now e1 < now e2 \<longrightarrow>
           (\<exists>xs ys zs. fst (get_saved_pages e i
                (snd (save_page e2 i t2 p2 k2 (snd (save_page e1 i t1 p1 k1 users)))))
              = (200, SavedPages
                   (xs @ new_saved e2 t2 p2 k2 # ys @ new_saved e1 t1 p1 k1 # zs))))"
  using assms get_saved_pages_sorted [of e users i u]
    later_save_first [of e e1 i t1 p1 k1 users e2 t2 p2 k2]
  by blast

theorem saved_pages_sorted_desc_witness:
  "get_saved_pages (env_at 9 (oid_of ''b9'')) (oid_of ''a1'')
      [alice\<lparr>savedData := [sample_page 100 (oid_of ''c1'') ''a'', sample_page 200 (oid_of ''c2'') ''b'']\<rparr>]
    = ((200, SavedPages [sample_page 200 (oid_of ''c2'') ''b'', sample_page 100 (oid_of ''c1'') ''a'']),
       [alice\<lparr>savedData := [sample_page 100 (oid_of ''c1'') ''a'', sample_page 200 (oid_of ''c2'') ''b'']\<rparr>])
   \<and> fst (get_saved_pages (env_at 9 (oid_of ''b9'')) (oid_of ''a1'')
          (snd (save_page (env_at 200 (oid_of ''c2'')) (oid_of ''a1'') None (Obj [(''url'', Str ''b'')]) None
            (snd (save_page (env_at 100 (oid_of ''c1'')) (oid_of ''a1'') None (Obj [(''url'', Str ''a'')]) None
               [alice])))))
    = (200, SavedPages
         [new_saved (env_at 200 (oid_of ''c2'')) None (Obj [(''url'', Str ''b'')]) None,
          new_saved (env_at 100 (oid_of ''c1'')) None (Obj [(''url'', Str ''a'')]) None])"
  using saved_pages_sorted_desc [of "env_at 9 (oid_of ''b9'')"
      "[alice\<lparr>savedData := [sample_page 100 (oid_of ''c1'') ''a'', sample_page 200 (oid_of ''c2'') ''b'']\<rparr>]"
      "oid_of ''a1''" "alice\<lparr>savedData := [sample_page 100 (oid_of ''c1'') ''a'', sample_page 200 (oid_of ''c2'') ''b'']\<rparr>"]
    saved_pages_sorted_desc [of "env_at 9 (oid_of ''b9'')" "[alice]" "oid_of ''a1''" alice
      "env_at 100 (oid_of ''c1'')" None "Obj [(''url'', Str ''a'')]" None
      "env_at 200 (oid_of ''c2'')" None "Obj [(''url'', Str ''b'')]" None]
  by (simp add: env_at_def oid_of_def alice_def new_user_def findById_def sample_page_def new_saved_def
      get_saved_pages_def awaited_def by_savedAt_desc_def save_page_def isDuplicate_def
      findByIdAndUpdate_def push_savedData_def url_of_def opt_member_def or_default_def)

subsection \<open>No second entry for a url\<close>

lemma savedData_other_lists [simp]:
  "savedData (push_newsHistory n u) = savedData u"
  "savedData (pull_newsHistory p u) = savedData u"
  "savedData (push_appointmentHistory a u) = savedData u"
  "savedData (pull_appointmentHistory p u) = savedData u"
  by (simp_all add: push_newsHistory_def pull_newsHistory_def push_appointmentHistory_def
      pull_appointmentHistory_def)


















section \<open>Updating the profile\<close>

lemma distinct_updateData: "distinct (map fst (updateData b fl))"
  by (cases fl) (simp_all add: updateData_def profile_fields_def comp_def)

lemma distinct_written: "distinct (map fst p) \<Longrightarrow> distinct (map fst (written p))"
  by (simp add: written_def distinct_map_filter)

lemma in_updateData: "k \<in> set profile_fields \<Longrightarrow> (k, b k) \<in> set (updateData b fl)"
  by (auto simp: updateData_def)

lemma updateData_value:
  "(k, v) \<in> set (updateData b fl) \<Longrightarrow> k \<noteq> ProfileImg \<Longrightarrow> v = b k"
  by (cases fl) (auto simp: updateData_def)

lemma ProfileImg_not_profile_field: "ProfileImg \<notin> set profile_fields"
  by (simp add: profile_fields_def)

lemma get_field_apply_update:
  assumes k: "k \<in> set profile_fields"
  shows "get_field k (apply_update (updateData b fl) u)
           = (case b k of None \<Rightarrow> get_field k u | Some v \<Rightarrow> Some v)"
proof (cases "b k")
  case None
  have "k \<noteq> ProfileImg" using k ProfileImg_not_profile_field by auto
  then have "v = None" if "(k, v) \<in> set (updateData b fl)" for v
    using that None updateData_value [of k v b fl] by simp
  then have "k \<notin> fst ` set (written (updateData b fl))"
    by (fastforce simp: written_def)
  then show ?thesis using None by (simp add: apply_update_def fold_set_field_untouched)
next
  case (Some v)
  then have "(k, Some v) \<in> set (written (updateData b fl))"
    using in_updateData [OF k, of b fl] by (auto simp: written_def)
  moreover have "distinct (map fst (written (updateData b fl)))"
    by (intro distinct_written distinct_updateData)
  ultimately have "get_field k (fold (\<lambda>(k, v). set_field k v) (written (updateData b fl)) u)
                     = Some v"
    by (intro fold_set_field_written)
  then show ?thesis using Some by (simp add: apply_update_def)
qed

lemma map_of_updateData:
  "k \<in> set profile_fields \<Longrightarrow> map_of (updateData b fl) k = Some (b k)"
  using distinct_updateData [of b fl] in_updateData [of k b fl] by simp

lemma update_profile_found:
  assumes "\<not> store_rejects e" and "findById users i = Some u"
  shows "update_profile e i b fl users =
           ((200, Updated ''Profile updated successfully!''
                    ((apply_update (updateData b fl) u)\<lparr>password := None\<rparr>)),
            snd (update_profile e i b fl users))"
    and "findById (snd (update_profile e i b fl users)) i
           = Some (apply_update (updateData b fl) u)"
  using assms
  by (simp_all add: update_profile_def awaited_def findByIdAndUpdate_def findById_modify_first)

lemma update_profile_rejected:
  "store_rejects e \<Longrightarrow>
   update_profile e i b fl users = ((500, MessageWithError ''Error updating profile''), users)"
  by (simp add: update_profile_def awaited_def)

lemma view_field_view_of: "view_field k (view_of u) = get_field k u"
  by (cases k) (simp_all add: view_of_def)

text \<open>
  Claim C1 as stated: a field the request body omits is overwritten with absence in the
  stored user, and the next \<^verbatim>\<open>GET /api/user-profile\<close> shows it absent. It fails at the
  request that carries only \<^verbatim>\<open>phone\<close> and \<^verbatim>\<open>bloodType\<close>: the keys holding
  \<^verbatim>\<open>undefined\<close> are not written, and \<^verbatim>\<open>fullName\<close> and \<^verbatim>\<open>email\<close> are afterwards what
  they were.
\<close>

theorem update_profile_omitted_counterexample:
  "sample_body FullName = None
   \<and> map fullName
        (snd (update_profile (env_at 7 (oid_of ''b7'')) (oid_of ''a1'') sample_body None [alice]))
      = [Some ''Alice'']
   \<and> fst (get_user_profile (env_at 8 (oid_of ''b8'')) (oid_of ''a1'')
            (snd (update_profile (env_at 7 (oid_of ''b7'')) (oid_of ''a1'') sample_body None
                    [alice])))
      = (200, Profile
           \<lparr>pv_id = oid_of ''a1'', pv_name = Some ''Alice'', pv_fullName = Some ''Alice'',
            pv_email = Some ''a@x.org'', pv_phone = Some ''555'', pv_address = Some [],
            pv_gender = Some [], pv_dob = Some [], pv_profileImg = Some [],
            pv_bloodType = Some ''O+'', pv_height = Some [], pv_weight = Some [],
            pv_allergies = Some [], pv_conditions = Some []\<rparr>)"
  by (simp add: env_at_def oid_of_def alice_def new_user_def findById_def update_profile_def
      awaited_def findByIdAndUpdate_def updateData_def profile_fields_def apply_update_def
      written_def sample_body_def get_user_profile_def view_of_def)

text \<open>
  Claim C1, amended: the update payload of \<^verbatim>\<open>PUT /api/update-profile\<close> holds the eleven
  profile fields (and \<^verbatim>\<open>profileImg\<close> after them exactly when a file was uploaded), each
  with the value the request body has for it, \<^verbatim>\<open>undefined\<close> for a field the body lacks.
  A field the body lacks keeps its stored value; a field the body carries is overwritten
  with the value carried, when the store accepts the update; and the next
  \<^verbatim>\<open>GET /api/user-profile\<close> shows the fields as they are stored then.
\<close>

theorem update_profile_writes_given_fields:
  "map fst (updateData b fl)
      = profile_fields @ (case fl of None \<Rightarrow> [] | Some f \<Rightarrow> [ProfileImg])
   \<and> (\<forall>k \<in> set profile_fields. map_of (updateData b fl) k = Some (b k))
   \<and> (findById users i = Some u \<longrightarrow>
        (\<exists>u'. findById (snd (update_profile e i b fl users)) i = Some u'
           \<and> (\<forall>k \<in> set profile_fields. b k = None \<longrightarrow> get_field k u' = get_field k u)
           \<and> (\<not> store_rejects e \<longrightarrow>
                 (\<forall>k \<in> set profile_fields. b k \<noteq> None \<longrightarrow> get_field k u' = b k)
               \<and> update_profile e i b fl users =
                   ((200, Updated ''Profile updated successfully!'' (u'\<lparr>password := None\<rparr>)),
                    snd (update_profile e i b fl users)))
           \<and> (\<forall>e'. \<not> store_rejects e' \<longrightarrow>
                 (\<exists>v. get_user_profile e' i (snd (update_profile e i b fl users))
                         = ((200, Profile v), snd (update_profile e i b fl users))
                    \<and> pv_name v = fullName u'
                    \<and> (\<forall>k \<in> set profile_fields. view_field k v = get_field k u')))))"
proof -
  have keys: "map fst (updateData b fl)
      = profile_fields @ (case fl of None \<Rightarrow> [] | Some f \<Rightarrow> [ProfileImg])"
    by (cases fl) (simp_all add: updateData_def comp_def)
  have vals: "\<forall>k \<in> set profile_fields. map_of (updateData b fl) k = Some (b k)"
    by (simp add: map_of_updateData)
  have stored: "\<exists>u'. findById (snd (update_profile e i b fl users)) i = Some u'
           \<and> (\<forall>k \<in> set profile_fields. b k = None \<longrightarrow> get_field k u' = get_field k u)
           \<and> (\<not> store_rejects e \<longrightarrow>
                 (\<forall>k \<in> set profile_fields. b k \<noteq> None \<longrightarrow> get_field k u' = b k)
               \<and> update_profile e i b fl users =
                   ((200, Updated ''Profile updated successfully!'' (u'\<lparr>password := None\<rparr>)),
                    snd (update_profile e i b fl users)))
           \<and> (\<forall>e'. \<not> store_rejects e' \<longrightarrow>
                 (\<exists>v. get_user_profile e' i (snd (update_profile e i b fl users))
                         = ((200, Profile v), snd (update_profile e i b fl users))
                    \<and> pv_name v = fullName u'
                    \<and> (\<forall>k \<in> set profile_fields. view_field k v = get_field k u')))"
    if h: "findById users i = Some u"
  proof (cases "store_rejects e")
    case True
    have same: "snd (update_profile e i b fl users) = users"
      using True by (simp add: update_profile_rejected)
    have shown: "\<exists>v. get_user_profile e' i users = ((200, Profile v), users)
                    \<and> pv_name v = fullName u
                    \<and> (\<forall>k \<in> set profile_fields. view_field k v = get_field k u)"
      if ok: "\<not> store_rejects e'" for e'
    proof -
      have "get_user_profile e' i users = ((200, Profile (view_of u)), users)"
        using ok h by (simp add: get_user_profile_def awaited_def)
      moreover have "pv_name (view_of u) = fullName u" by (simp add: view_of_def)
      moreover have "\<forall>k \<in> set profile_fields. view_field k (view_of u) = get_field k u"
        by (simp add: view_field_view_of)
      ultimately show ?thesis by blast
    qed
    show ?thesis
      unfolding same using h True shown by (intro exI [of _ u]) simp
  next
    case False
    let ?u = "apply_update (updateData b fl) u"
    note f = update_profile_found [OF False h, of b fl]
    have kept: "\<forall>k \<in> set profile_fields. b k = None \<longrightarrow> get_field k ?u = get_field k u"
      by (simp add: get_field_apply_update)
    have set: "\<forall>k \<in> set profile_fields. b k \<noteq> None \<longrightarrow> get_field k ?u = b k"
      by (auto simp: get_field_apply_update)
    have "get_user_profile e' i (snd (update_profile e i b fl users))
               = ((200, Profile (view_of ?u)), snd (update_profile e i b fl users))"
      if "\<not> store_rejects e'" for e'
      using that f(2) by (simp add: get_user_profile_def awaited_def)
    moreover have "pv_name (view_of ?u) = fullName ?u" by (simp add: view_of_def)
    moreover have "\<forall>k \<in> set profile_fields. view_field k (view_of ?u) = get_field k ?u"
      by (simp add: view_field_view_of)
    ultimately have shown: "\<forall>e'. \<not> store_rejects e' \<longrightarrow>
                 (\<exists>v. get_user_profile e' i (snd (update_profile e i b fl users))
                         = ((200, Profile v), snd (update_profile e i b fl users))
                    \<and> pv_name v = fullName ?u
                    \<and> (\<forall>k \<in> set profile_fields. view_field k v = get_field k ?u))"
      by blast
    from f kept set shown show ?thesis by blast
  qed
  from keys vals stored show ?thesis by blast
qed

theorem update_profile_writes_given_fields_witness:
  "map (\<lambda>u. map (\<lambda>k. get_field k u) profile_fields)
     (snd (update_profile (env_at 7 (oid_of ''b7'')) (oid_of ''a1'') sample_body None [alice]))
     = [[Some ''Alice'', Some ''a@x.org'', Some ''555'', Some [], Some [], Some [],
         Some ''O+'', Some [], Some [], Some [], Some []]]"
  using update_profile_writes_given_fields [of sample_body None "[alice]" "oid_of ''a1''" alice
      "env_at 7 (oid_of ''b7'')"]
  by (simp add: env_at_def oid_of_def alice_def new_user_def findById_def update_profile_def
      awaited_def findByIdAndUpdate_def updateData_def profile_fields_def apply_update_def
      written_def sample_body_def)






end
